theory Spec2Isabelle
  imports Main
begin

section \<open>Strings\<close>

text \<open>
  A JavaScript string is modelled as a \<open>string\<close> (a list of characters). The only
  character the program inspects is the separator \<open>.\<close>, so the width of a code unit plays
  no role.

  \<open>str_split sep s\<close> is \<open>s.split(sep)\<close> for a separator of one character: the pieces
  between the occurrences of the separator, in order, empty pieces included; a string
  without separator (the empty string too) gives one piece.
  \<open>str_join sep ts\<close> is \<open>ts.join(sep)\<close>.
\<close>

fun str_split :: "char \<Rightarrow> string \<Rightarrow> string list" where
  "str_split sep [] = [[]]"
| "str_split sep (c # cs) =
     (if c = sep then [] # str_split sep cs
      else (c # hd (str_split sep cs)) # tl (str_split sep cs))"

fun str_join :: "string \<Rightarrow> string list \<Rightarrow> string" where
  "str_join sep [] = []"
| "str_join sep [t] = t"
| "str_join sep (t # u # ts) = t @ sep @ str_join sep (u # ts)"

section \<open>helpers.js: the domain splitter\<close>

text \<open>
  \<open>throw new Error(msg)\<close> is the value \<open>Error msg\<close>; it is the only exception the
  program raises itself. \<open>ResourceError\<close> is the exception that the library's resource
  constructor raises when the logical name of the resource is empty.
\<close>

datatype error = Error string | ResourceError

record domainParts =
  subdomain :: string
  parentDomain :: string

definition getDomainAndSubdomain :: "string \<Rightarrow> error + domainParts" where
  "getDomainAndSubdomain domain =
     (let parts = str_split CHR ''.'' domain in
      if length parts < 2 then Inl (Error (''No TLD found on '' @ domain))
      else if length parts = 2 then Inr \<lparr>subdomain = [], parentDomain = domain\<rparr>
      else
        let subdomain = parts ! 0;
            parts = tl parts
        in Inr \<lparr>subdomain = subdomain,
                parentDomain = str_join ''.'' parts @ ''.''\<rparr>)"

text \<open>
  Observers used to state properties of the splitter. \<open>separators d\<close> counts the
  separators of \<open>d\<close>. \<open>canonical s\<close> says that \<open>s\<close> ends with the separator.
  \<open>rejoin p\<close> is subdomain + "." + parentDomain with one trailing separator removed.
\<close>

definition separators :: "string \<Rightarrow> nat" where
  "separators d = count_list d CHR ''.''"

definition canonical :: "string \<Rightarrow> bool" where
  "canonical s = (s \<noteq> [] \<and> last s = CHR ''.'')"

definition stripTrailingSeparator :: "string \<Rightarrow> string" where
  "stripTrailingSeparator s = (if canonical s then butlast s else s)"

definition rejoin :: "domainParts \<Rightarrow> string" where
  "rejoin p = stripTrailingSeparator (subdomain p @ ''.'' @ parentDomain p)"

section \<open>The provisioning engine\<close>

text \<open>
  \<open>new aws.<kind>(name, args, opts)\<close> registers a resource with the engine and returns
  an object standing for it. The model keeps the resources in the order of their
  registration. A resource object is a \<open>handle\<close>: the kind and the logical name.
\<close>

datatype kind =
    KComponent | KProvider | KBucket | KCertificate | KRecord
  | KCertificateValidation | KDistribution

datatype handle = Handle kind string

text \<open>
  Values given to resources. \<open>Str s\<close> is a string known when the program runs.
  \<open>Out h a\<close> is the attribute \<open>a\<close> of the resource \<open>h\<close>, an output that has a value
  only once the engine has created \<open>h\<close>. \<open>ZoneIdOfLookup n\<close> is the promise
  \<open>aws.route53.getZone(...).then(zone => zone.zoneId)\<close> of the lookup number \<open>n\<close>
  of the run. \<open>HostOfUrl v\<close> is
  \<open>v.apply(s => s.replace(/^https?:\/\/([^/]*).*/, '$1'))\<close>.
\<close>

datatype val =
    Str string
  | Out handle string
  | ZoneIdOfLookup nat
  | HostOfUrl val

record opts =
  provider :: "handle option"
  parent :: "handle option"

record providerArgs =
  profile :: "string option"
  region :: string

record bucketArgs =
  bucket :: string
  acl :: string

record certificateArgs =
  cert_domainName :: string
  validationMethod :: string

record aliasTarget =
  at_name :: val
  at_zoneId :: val
  evaluateTargetHealth :: bool

text \<open>
  The two records of the program give different keys; a key that the object literal
  does not have is \<open>None\<close>.
\<close>

record recordArgs =
  rec_name :: val
  rec_zoneId :: val
  rec_type :: val
  rec_records :: "val list option"
  rec_ttl :: "nat option"
  rec_aliases :: "aliasTarget list option"

record certificateValidationArgs =
  cv_certificateArn :: val
  validationRecordFqdns :: "val list"

record customOriginConfig =
  originProtocolPolicy :: string
  httpPort :: nat
  httpsPort :: nat
  originSslProtocols :: "string list"

record origin =
  originId :: val
  origin_domainName :: val
  originPath :: "string option"
  customOriginConfig :: customOriginConfig

record cookies =
  forward :: string

record forwardedValues =
  fv_cookies :: cookies
  queryString :: bool

record cacheBehavior =
  pathPattern :: "string option"
  targetOriginId :: val
  viewerProtocolPolicy :: string
  allowedMethods :: "string list"
  cachedMethods :: "string list"
  forwardedValues :: forwardedValues
  minTtl :: nat
  defaultTtl :: nat
  maxTtl :: nat

record customErrorResponse =
  errorCode :: nat
  responseCode :: nat
  responsePagePath :: string

record geoRestriction =
  restrictionType :: string

record restrictions =
  geoRestriction :: geoRestriction

record viewerCertificate =
  acmCertificateArn :: val
  sslSupportMethod :: string

record loggingConfig =
  log_bucket :: val
  includeCookies :: bool
  log_prefix :: string

record distributionArgs =
  enabled :: bool
  dist_aliases :: "string list"
  origins :: "origin list"
  defaultRootObject :: string
  defaultCacheBehavior :: cacheBehavior
  orderedCacheBehaviors :: "cacheBehavior list"
  priceClass :: string
  customErrorResponses :: "customErrorResponse list"
  restrictions :: restrictions
  viewerCertificate :: viewerCertificate
  loggingConfig :: loggingConfig

datatype resource =
    ComponentResource string string
  | Provider string providerArgs opts
  | Bucket string bucketArgs opts
  | Certificate string certificateArgs opts
  | Record string recordArgs opts
  | CertificateValidation string certificateValidationArgs opts
  | Distribution string distributionArgs opts

fun handleOf :: "resource \<Rightarrow> handle" where
  "handleOf (ComponentResource t n) = Handle KComponent n"
| "handleOf (Provider n a p) = Handle KProvider n"
| "handleOf (Bucket n a p) = Handle KBucket n"
| "handleOf (Certificate n a p) = Handle KCertificate n"
| "handleOf (Record n a p) = Handle KRecord n"
| "handleOf (CertificateValidation n a p) = Handle KCertificateValidation n"
| "handleOf (Distribution n a p) = Handle KDistribution n"

text \<open>
  The state of a run: the resources registered so far, the names given to
  \<open>aws.route53.getZone\<close> so far (each call is one lookup in the external registry), and
  the ambient setting \<open>aws.config.profile\<close>, which may be undefined.
\<close>

record engine =
  registered :: "resource list"
  zoneLookups :: "string list"
  awsProfile :: "string option"

fun nameOf :: "resource \<Rightarrow> string" where
  "nameOf (ComponentResource t n) = n"
| "nameOf (Provider n a p) = n"
| "nameOf (Bucket n a p) = n"
| "nameOf (Certificate n a p) = n"
| "nameOf (Record n a p) = n"
| "nameOf (CertificateValidation n a p) = n"
| "nameOf (Distribution n a p) = n"

text \<open>
  The constructor of a resource checks the logical name first (\<open>if (!name) throw\<close>):
  with an empty name it throws and registers nothing. An exception is the result
  \<open>Inl (e, st)\<close>, which keeps the state of the engine at that moment.
\<close>

definition new :: "resource \<Rightarrow> engine \<Rightarrow> (error \<times> engine) + (handle \<times> engine)" where
  "new r st =
     (if nameOf r = [] then Inl (ResourceError, st)
      else Inr (handleOf r, st\<lparr>registered := registered st @ [r]\<rparr>))"

definition getZoneId :: "string \<Rightarrow> engine \<Rightarrow> val \<times> engine" where
  "getZoneId nm st =
     (ZoneIdOfLookup (length (zoneLookups st)), st\<lparr>zoneLookups := zoneLookups st @ [nm]\<rparr>)"

text \<open>
  The objects the caller hands over, with the properties the program reads.
\<close>

record contentBucket =
  cb_arn :: val
  websiteEndpoint :: val

record apiGateway =
  url :: val

record logsBucket =
  bucketDomainName :: val

section \<open>index.js: the component\<close>

text \<open>
  A property of a JavaScript object holds \<open>Undefined\<close> until it is assigned.
  The component object \<open>this\<close> has the three properties the constructor assigns, and
  \<open>outputs\<close>, the object given to \<open>registerOutputs\<close> as the list of its keys and
  values (\<open>None\<close> before the call).
\<close>

datatype jsvalue = Undefined | Value val | Resource handle

record component =
  self :: handle
  outputs :: "(string \<times> jsvalue) list option"
  this_certificateArn :: jsvalue
  this_cloudFrontDistribution :: jsvalue
  this_aliasRecord :: jsvalue

definition TEN_MINUTES :: nat where
  "TEN_MINUTES = 60 * 10"

text \<open>
  \<open>distributionArgsOf\<close> is the object literal that \<open>createCloudFrontDistribution\<close> gives
  to \<open>new aws.cloudfront.Distribution\<close> as its second argument.
\<close>

definition distributionArgsOf ::
  "string \<Rightarrow> contentBucket \<Rightarrow> apiGateway \<Rightarrow> val \<Rightarrow> logsBucket \<Rightarrow> distributionArgs" where
  "distributionArgsOf targetDomain contentBucket apiGateway certificateArn logsBucket =
       \<lparr>enabled = True,
        dist_aliases = [targetDomain],
        origins =
          [\<lparr>originId = cb_arn contentBucket,
            origin_domainName = websiteEndpoint contentBucket,
            originPath = None,
            customOriginConfig =
              \<lparr>originProtocolPolicy = ''http-only'', httpPort = 80, httpsPort = 443,
               originSslProtocols = [''TLSv1.2'']\<rparr>\<rparr>,
           \<lparr>originId = Str ''api'',
            origin_domainName = HostOfUrl (url apiGateway),
            originPath = Some ''/stage'',
            customOriginConfig =
              \<lparr>originProtocolPolicy = ''https-only'', httpPort = 80, httpsPort = 443,
               originSslProtocols = [''TLSv1.2'']\<rparr>\<rparr>],
        defaultRootObject = ''index.html'',
        defaultCacheBehavior =
          \<lparr>pathPattern = None,
           targetOriginId = cb_arn contentBucket,
           viewerProtocolPolicy = ''redirect-to-https'',
           allowedMethods = [''GET'', ''HEAD'', ''OPTIONS''],
           cachedMethods = [''GET'', ''HEAD'', ''OPTIONS''],
           forwardedValues = \<lparr>fv_cookies = \<lparr>forward = ''none''\<rparr>, queryString = False\<rparr>,
           minTtl = 0,
           defaultTtl = TEN_MINUTES,
           maxTtl = TEN_MINUTES\<rparr>,
        orderedCacheBehaviors =
          [\<lparr>pathPattern = Some ''/api/*'',
            targetOriginId = Str ''api'',
            viewerProtocolPolicy = ''redirect-to-https'',
            allowedMethods =
              [''DELETE'', ''GET'', ''HEAD'', ''OPTIONS'', ''PATCH'', ''POST'', ''PUT''],
            cachedMethods = [''HEAD'', ''GET'', ''OPTIONS''],
            forwardedValues = \<lparr>fv_cookies = \<lparr>forward = ''all''\<rparr>, queryString = True\<rparr>,
            minTtl = 0,
            defaultTtl = 0,
            maxTtl = 0\<rparr>],
        priceClass = ''PriceClass_100'',
        customErrorResponses =
          [\<lparr>errorCode = 404, responseCode = 404, responsePagePath = ''/404.html''\<rparr>,
           \<lparr>errorCode = 403, responseCode = 200, responsePagePath = ''/index.html''\<rparr>],
        restrictions = \<lparr>geoRestriction = \<lparr>restrictionType = ''none''\<rparr>\<rparr>,
        viewerCertificate =
          \<lparr>acmCertificateArn = certificateArn, sslSupportMethod = ''sni-only''\<rparr>,
        loggingConfig =
          \<lparr>log_bucket = bucketDomainName logsBucket,
           includeCookies = False,
           log_prefix = targetDomain @ ''/''\<rparr>\<rparr>"

definition createCloudFrontDistribution ::
  "handle \<Rightarrow> string \<Rightarrow> string \<Rightarrow> contentBucket \<Rightarrow> apiGateway \<Rightarrow> val \<Rightarrow> logsBucket
     \<Rightarrow> engine \<Rightarrow> (error \<times> engine) + (handle \<times> engine)" where
  "createCloudFrontDistribution this name targetDomain contentBucket apiGateway
       certificateArn logsBucket =
     new (Distribution (name @ ''-cloudfront'')
       (distributionArgsOf targetDomain contentBucket apiGateway certificateArn logsBucket)
       \<lparr>provider = None, parent = Some this\<rparr>)"

definition createLogsBucket ::
  "handle \<Rightarrow> string \<Rightarrow> string \<Rightarrow> engine \<Rightarrow> (error \<times> engine) + (handle \<times> engine)" where
  "createLogsBucket this name targetDomain =
     new (Bucket (name @ ''-front-logs'')
       \<lparr>bucket = targetDomain @ ''-logs'', acl = ''private''\<rparr>
       \<lparr>provider = None, parent = Some this\<rparr>)"

text \<open>
  An exception leaves the method and the constructor at once.
\<close>

definition provisionCertificate ::
  "handle \<Rightarrow> string \<Rightarrow> string \<Rightarrow> engine \<Rightarrow> (error \<times> engine) + (val \<times> engine)" where
  "provisionCertificate this name targetDomain st =
     (case new (Provider ''east'' \<lparr>profile = awsProfile st, region = ''us-east-1''\<rparr>
                  \<lparr>provider = None, parent = None\<rparr>) st of
        Inl e \<Rightarrow> Inl e
      | Inr (eastRegion, st) \<Rightarrow>
     (case new (Certificate (name @ ''-certificate'')
                  \<lparr>cert_domainName = targetDomain, validationMethod = ''DNS''\<rparr>
                  \<lparr>provider = Some eastRegion, parent = Some this\<rparr>) st of
        Inl e \<Rightarrow> Inl e
      | Inr (certificate, st) \<Rightarrow>
     (case getDomainAndSubdomain targetDomain of
        Inl e \<Rightarrow> Inl (e, st)
      | Inr domainParts \<Rightarrow>
          let (hostedZoneId, st) = getZoneId (parentDomain domainParts) st
          in
     (case new (Record (name @ ''-validation'')
                  \<lparr>rec_name =
                     Out certificate ''domainValidationOptions[0].resourceRecordName'',
                   rec_zoneId = hostedZoneId,
                   rec_type =
                     Out certificate ''domainValidationOptions[0].resourceRecordType'',
                   rec_records =
                     Some [Out certificate
                             ''domainValidationOptions[0].resourceRecordValue''],
                   rec_ttl = Some TEN_MINUTES,
                   rec_aliases = None\<rparr>
                  \<lparr>provider = None, parent = Some this\<rparr>) st of
        Inl e \<Rightarrow> Inl e
      | Inr (certificateValidationDomain, st) \<Rightarrow>
     (case new (CertificateValidation (name @ ''-certificateValidation'')
                  \<lparr>cv_certificateArn = Out certificate ''arn'',
                   validationRecordFqdns = [Out certificateValidationDomain ''fqdn'']\<rparr>
                  \<lparr>provider = Some eastRegion, parent = Some this\<rparr>) st of
        Inl e \<Rightarrow> Inl e
      | Inr (certificateValidation, st) \<Rightarrow>
          Inr (Out certificateValidation ''certificateArn'', st))))))"

definition createAliasRecord ::
  "handle \<Rightarrow> string \<Rightarrow> string \<Rightarrow> handle \<Rightarrow> engine \<Rightarrow> (error \<times> engine) + (handle \<times> engine)" where
  "createAliasRecord this name targetDomain distribution st =
     (case getDomainAndSubdomain targetDomain of
        Inl e \<Rightarrow> Inl (e, st)
      | Inr domainParts \<Rightarrow>
          let (hostedZoneId, st) = getZoneId (parentDomain domainParts) st
          in new (Record name
                    \<lparr>rec_name = Str (subdomain domainParts),
                     rec_zoneId = hostedZoneId,
                     rec_type = Str ''A'',
                     rec_records = None,
                     rec_ttl = None,
                     rec_aliases =
                       Some [\<lparr>at_name = Out distribution ''domainName'',
                              at_zoneId = Out distribution ''hostedZoneId'',
                              evaluateTargetHealth = True\<rparr>]\<rparr>
                    \<lparr>provider = None, parent = Some this\<rparr>) st)"

text \<open>
  The logs bucket the constructor creates is a resource object; the distribution reads
  its property \<open>bucketDomainName\<close>, an output of the bucket.
\<close>

definition bucketObject :: "handle \<Rightarrow> logsBucket" where
  "bucketObject b = \<lparr>bucketDomainName = Out b ''bucketDomainName''\<rparr>"

text \<open>
  The constructor. \<open>super('StaticFrontendWithLambdaBackend', name, {}, {})\<close> registers the
  component itself and is the first thing that can throw.
\<close>

definition StaticFrontendWithLambdaBackend ::
  "string \<Rightarrow> string \<Rightarrow> contentBucket \<Rightarrow> apiGateway \<Rightarrow> logsBucket option \<Rightarrow> engine
     \<Rightarrow> (error \<times> engine) + (component \<times> engine)" where
  "StaticFrontendWithLambdaBackend name targetDomain contentBucket apiGateway logsBucket st =
     (case new (ComponentResource ''StaticFrontendWithLambdaBackend'' name) st of
        Inl e \<Rightarrow> Inl e
      | Inr (this, st) \<Rightarrow>
          let obj = \<lparr>self = this, outputs = None, this_certificateArn = Undefined,
                     this_cloudFrontDistribution = Undefined, this_aliasRecord = Undefined\<rparr>
          in
     (case (case logsBucket of
              None \<Rightarrow>
                (case createLogsBucket this name targetDomain st of
                   Inl e \<Rightarrow> Inl e
                 | Inr (b, st) \<Rightarrow> Inr (bucketObject b, st))
            | Some b \<Rightarrow> Inr (b, st)) of
        Inl e \<Rightarrow> Inl e
      | Inr (logsBucket, st) \<Rightarrow>
     (case provisionCertificate this name targetDomain st of
        Inl e \<Rightarrow> Inl e
      | Inr (certificateArn, st) \<Rightarrow>
     (case createCloudFrontDistribution this name targetDomain contentBucket
             apiGateway certificateArn logsBucket st of
        Inl e \<Rightarrow> Inl e
      | Inr (cloudFrontDistribution, st) \<Rightarrow>
     (case createAliasRecord this name targetDomain cloudFrontDistribution st of
        Inl e \<Rightarrow> Inl e
      | Inr (aliasRecord, st) \<Rightarrow>
          let obj = obj\<lparr>outputs :=
                      Some [(''certificateArn'', Value certificateArn),
                            (''aliasRecord'', this_aliasRecord obj),
                            (''cloudFrontDistribution'',
                               Resource cloudFrontDistribution)]\<rparr>;
              obj = obj\<lparr>this_certificateArn := Value certificateArn\<rparr>;
              obj = obj\<lparr>this_cloudFrontDistribution :=
                            Resource cloudFrontDistribution\<rparr>;
              obj = obj\<lparr>this_aliasRecord := Resource aliasRecord\<rparr>
          in Inr (obj, st))))))"

definition finalEngine :: "(error \<times> engine) + ('a \<times> engine) \<Rightarrow> engine" where
  "finalEngine r = (case r of Inl (e, st) \<Rightarrow> st | Inr (x, st) \<Rightarrow> st)"

section \<open>Observing a run\<close>

text \<open>
  \<open>created st st'\<close> are the resources registered after the state \<open>st\<close>, up to the
  state \<open>st'\<close>. \<open>isBucket\<close>, \<open>errorResponsesOf\<close>, \<open>viewerCertificateArnOf\<close> and
  \<open>zoneIdOf\<close> read a resource. \<open>observedZoneId registry st v\<close> is the zone
  identifier the promise \<open>v\<close> resolves to when the external registry answers a lookup
  by name with \<open>registry name\<close> (\<open>None\<close>: no such zone).

  \<open>dependencies r\<close> are the resources whose outputs are among the inputs of \<open>r\<close>.
  An output has a value only when its resource has been created, and the engine creates a
  resource only when its inputs have values: \<open>respectsDependencies rs order\<close> says that
  \<open>order\<close>, the resources in the order in which their creation completes, has this
  property for the resources \<open>rs\<close>. \<open>precedes a b order\<close>: \<open>b\<close> is created in
  \<open>order\<close>, and \<open>a\<close> is created before it.

  \<open>registeredOutputs\<close> is what a run gave to \<open>registerOutputs\<close>. The constants
  \<open>example...\<close> are concrete arguments of a run.
\<close>

definition created :: "engine \<Rightarrow> engine \<Rightarrow> resource list" where
  "created st st' = drop (length (registered st)) (registered st')"

fun isBucket :: "resource \<Rightarrow> bool" where
  "isBucket (Bucket n a p) = True"
| "isBucket r = False"

fun errorResponsesOf :: "resource \<Rightarrow> customErrorResponse list" where
  "errorResponsesOf (Distribution n a p) = customErrorResponses a"
| "errorResponsesOf r = []"

fun viewerCertificateArnOf :: "resource \<Rightarrow> val list" where
  "viewerCertificateArnOf (Distribution n a p) = [acmCertificateArn (viewerCertificate a)]"
| "viewerCertificateArnOf r = []"

fun zoneIdOf :: "resource \<Rightarrow> (handle \<times> val) list" where
  "zoneIdOf (Record n a p) = [(Handle KRecord n, rec_zoneId a)]"
| "zoneIdOf r = []"

definition observedZoneId :: "(string \<Rightarrow> string option) \<Rightarrow> engine \<Rightarrow> val \<Rightarrow> string option" where
  "observedZoneId registry st v =
     (case v of
        ZoneIdOfLookup n \<Rightarrow>
          if n < length (zoneLookups st) then registry (zoneLookups st ! n) else None
      | _ \<Rightarrow> None)"

fun refs :: "val \<Rightarrow> handle list" where
  "refs (Str s) = []"
| "refs (Out h a) = [h]"
| "refs (ZoneIdOfLookup n) = []"
| "refs (HostOfUrl v) = refs v"

fun inputs :: "resource \<Rightarrow> val list" where
  "inputs (ComponentResource t n) = []"
| "inputs (Provider n a p) = []"
| "inputs (Bucket n a p) = []"
| "inputs (Certificate n a p) = []"
| "inputs (Record n a p) =
     [rec_name a, rec_zoneId a, rec_type a]
       @ (case rec_records a of None \<Rightarrow> [] | Some vs \<Rightarrow> vs)
       @ (case rec_aliases a of None \<Rightarrow> []
          | Some ts \<Rightarrow> concat (map (\<lambda>t. [at_name t, at_zoneId t]) ts))"
| "inputs (CertificateValidation n a p) = cv_certificateArn a # validationRecordFqdns a"
| "inputs (Distribution n a p) =
     concat (map (\<lambda>og. [originId og, origin_domainName og]) (origins a))
       @ map targetOriginId (defaultCacheBehavior a # orderedCacheBehaviors a)
       @ [acmCertificateArn (viewerCertificate a), log_bucket (loggingConfig a)]"

definition dependencies :: "resource \<Rightarrow> handle list" where
  "dependencies r = concat (map refs (inputs r))"

definition precedes :: "handle \<Rightarrow> handle \<Rightarrow> handle list \<Rightarrow> bool" where
  "precedes a b order = (b \<in> set order \<and> a \<in> set (takeWhile (\<lambda>h. h \<noteq> b) order))"

definition respectsDependencies :: "resource list \<Rightarrow> handle list \<Rightarrow> bool" where
  "respectsDependencies rs order =
     (\<forall>r\<in>set rs. \<forall>h\<in>set (dependencies r). precedes h (handleOf r) order)"

definition exampleEngine :: engine where
  "exampleEngine = \<lparr>registered = [], zoneLookups = [], awsProfile = None\<rparr>"

definition exampleContentBucket :: contentBucket where
  "exampleContentBucket =
     \<lparr>cb_arn = Out (Handle KBucket ''content'') ''arn'',
      websiteEndpoint = Out (Handle KBucket ''content'') ''websiteEndpoint''\<rparr>"

definition exampleApiGateway :: apiGateway where
  "exampleApiGateway = \<lparr>url = Str ''https://abc123.execute-api.eu-west-1.amazonaws.com/stage/''\<rparr>"

definition registeredOutputs ::
  "(error \<times> engine) + (component \<times> engine) \<Rightarrow> (string \<times> jsvalue) list option" where
  "registeredOutputs r = (case r of Inl x \<Rightarrow> None | Inr (obj, st) \<Rightarrow> outputs obj)"

definition exampleOrder :: "handle list" where
  "exampleOrder =
     [Handle KBucket ''content'', Handle KComponent ''site'',
      Handle KBucket ''site-front-logs'', Handle KProvider ''east'',
      Handle KCertificate ''site-certificate'', Handle KRecord ''site-validation'',
      Handle KCertificateValidation ''site-certificateValidation'',
      Handle KDistribution ''site-cloudfront'', Handle KRecord ''site'']"

section \<open>Splitting and joining\<close>

lemma str_split_not_Nil: "str_split sep s \<noteq> []"
  by (induction s) auto

lemma length_str_split: "length (str_split sep s) = Suc (count_list s sep)"
proof (induction s)
  case Nil
  show ?case by simp
next
  case (Cons c cs)
  have "str_split sep cs \<noteq> []" by (rule str_split_not_Nil)
  then have "length (tl (str_split sep cs)) = count_list cs sep"
    using Cons.IH by (cases "str_split sep cs") auto
  then show ?case using Cons.IH by simp
qed

lemma str_join_Cons:
  "ts \<noteq> [] \<Longrightarrow> str_join sep (t # ts) = t @ sep @ str_join sep ts"
  by (cases ts) auto

lemma str_join_str_split: "str_join [sep] (str_split sep s) = s"
proof (induction s)
  case Nil
  show ?case by simp
next
  case (Cons c cs)
  obtain t ts where split: "str_split sep cs = t # ts"
    using str_split_not_Nil [of sep cs] by (cases "str_split sep cs") auto
  show ?case
  proof (cases "c = sep")
    case True
    then show ?thesis using Cons.IH split by simp
  next
    case False
    have "str_join [sep] ((c # t) # ts) = c # str_join [sep] (t # ts)"
      by (cases ts) auto
    then show ?thesis using False Cons.IH split by simp
  qed
qed

lemma hd_tl_parts:
  assumes "str_split CHR ''.'' d = t # ts" and "ts \<noteq> []"
  shows "t @ ''.'' @ str_join ''.'' ts = d"
proof -
  have "str_join ''.'' (t # ts) = d"
    using str_join_str_split [of "CHR ''.''" d] assms(1) by simp
  then show ?thesis using assms(2) by (simp add: str_join_Cons)
qed

lemma separators_tokens: "length (str_split CHR ''.'' d) = Suc (separators d)"
  by (simp add: separators_def length_str_split)

lemma separators_zero: "separators d = 0 \<longleftrightarrow> CHR ''.'' \<notin> set d"
  by (simp add: separators_def count_list_0_iff)

lemma str_split_no_sep: "t \<in> set (str_split sep s) \<Longrightarrow> sep \<notin> set t"
proof (induction s arbitrary: t)
  case Nil
  then show ?case by simp
next
  case (Cons c cs)
  obtain u us where split: "str_split sep cs = u # us"
    using str_split_not_Nil [of sep cs] by (cases "str_split sep cs") auto
  show ?case
  proof (cases "c = sep")
    case True
    then show ?thesis using Cons by auto
  next
    case False
    then have "t = c # u \<or> t \<in> set us" using Cons.prems split by simp
    then show ?thesis using False Cons.IH split by auto
  qed
qed

lemma str_split_append_sep:
  "sep \<notin> set t \<Longrightarrow> str_split sep (t @ sep # s) = t # str_split sep s"
  by (induction t) auto

lemma str_split_token: "sep \<notin> set t \<Longrightarrow> str_split sep t = [t]"
  by (induction t) auto

text \<open>
  Together with \<open>str_join_str_split\<close> this says that \<open>str_split\<close> is the tokenisation:
  the tokens of a string are the one list of separator-free strings that joins to it.
\<close>

lemma str_split_str_join:
  "ts \<noteq> [] \<Longrightarrow> \<forall>t\<in>set ts. sep \<notin> set t \<Longrightarrow> str_split sep (str_join [sep] ts) = ts"
proof (induction ts)
  case Nil
  then show ?case by simp
next
  case step: (Cons t ts)
  show ?case
  proof (cases ts)
    case Nil
    then show ?thesis using step.prems by (simp add: str_split_token)
  next
    case (Cons u us)
    then have "str_join [sep] (t # ts) = t @ sep # str_join [sep] ts" by simp
    moreover have "str_split sep (str_join [sep] ts) = ts"
      using Cons step.IH step.prems by simp
    ultimately show ?thesis using step.prems by (simp add: str_split_append_sep)
  qed
qed

section \<open>The domain splitter\<close>

lemma getDomainAndSubdomain_three:
  assumes "2 \<le> separators d"
  obtains t ts where "str_split CHR ''.'' d = t # ts" and "ts \<noteq> []"
    and "getDomainAndSubdomain d =
           Inr \<lparr>subdomain = t, parentDomain = str_join ''.'' ts @ ''.''\<rparr>"
proof -
  have len: "3 \<le> length (str_split CHR ''.'' d)"
    using assms by (simp add: separators_tokens)
  then obtain t ts where split: "str_split CHR ''.'' d = t # ts"
    by (cases "str_split CHR ''.'' d") auto
  with len have "2 \<le> length ts" by simp
  then have "ts \<noteq> []" and "\<not> length ts < 1" and "length ts \<noteq> 1" by auto
  then show ?thesis
    using split that by (simp add: getDomainAndSubdomain_def Let_def)
qed

lemma getDomainAndSubdomain_two:
  assumes "separators d = 1"
  shows "getDomainAndSubdomain d = Inr \<lparr>subdomain = [], parentDomain = d\<rparr>"
proof -
  have "length (str_split CHR ''.'' d) = 2"
    using assms by (simp add: separators_tokens)
  then show ?thesis by (simp add: getDomainAndSubdomain_def Let_def)
qed

lemma getDomainAndSubdomain_none:
  assumes "separators d = 0"
  shows "getDomainAndSubdomain d = Inl (Error (''No TLD found on '' @ d))"
proof -
  have "length (str_split CHR ''.'' d) = 1"
    using assms by (simp add: separators_tokens)
  then show ?thesis by (simp add: getDomainAndSubdomain_def Let_def)
qed

text \<open>
  C1. When the input has the tokens \<open>t # ts\<close> (the result of splitting it at the
  separator): with at least three tokens the subdomain is the first token \<open>t\<close> and the
  parent domain is the other tokens joined with the separator, with one more separator at
  the end; with exactly two tokens the subdomain is empty and the parent domain is the
  whole input.
\<close>

theorem getDomainAndSubdomain_tokens:
  "str_split CHR ''.'' d = t # ts \<Longrightarrow>
     (2 \<le> length ts \<longrightarrow>
        getDomainAndSubdomain d =
          Inr \<lparr>subdomain = t, parentDomain = str_join ''.'' ts @ ''.''\<rparr>) \<and>
     (length ts = 1 \<longrightarrow>
        getDomainAndSubdomain d = Inr \<lparr>subdomain = [], parentDomain = d\<rparr>)"
  by (auto simp: getDomainAndSubdomain_def Let_def)

theorem getDomainAndSubdomain_tokens_witness:
  "getDomainAndSubdomain ''www.example.com'' =
     Inr \<lparr>subdomain = ''www'', parentDomain = ''example.com.''\<rparr> \<and>
   getDomainAndSubdomain ''example.com'' =
     Inr \<lparr>subdomain = [], parentDomain = ''example.com''\<rparr>"
proof -
  have three: "str_split CHR ''.'' ''www.example.com'' = ''www'' # [''example'', ''com'']"
    by simp
  have two: "str_split CHR ''.'' ''example.com'' = ''example'' # [''com'']"
    by simp
  show ?thesis
    using getDomainAndSubdomain_tokens [OF three] getDomainAndSubdomain_tokens [OF two]
    by simp
qed

text \<open>
  C2, as amended. For an input with at least two separators, subdomain + "." +
  parentDomain with the trailing separator removed is the input again.
\<close>

theorem rejoin_reconstructs:
  "2 \<le> separators d \<Longrightarrow> \<exists>p. getDomainAndSubdomain d = Inr p \<and> rejoin p = d"
proof -
  assume "2 \<le> separators d"
  then obtain t ts where split: "str_split CHR ''.'' d = t # ts" and ne: "ts \<noteq> []"
    and res: "getDomainAndSubdomain d =
           Inr \<lparr>subdomain = t, parentDomain = str_join ''.'' ts @ ''.''\<rparr>"
    by (rule getDomainAndSubdomain_three)
  have "rejoin \<lparr>subdomain = t, parentDomain = str_join ''.'' ts @ ''.''\<rparr>
          = t @ ''.'' @ str_join ''.'' ts"
    by (simp add: rejoin_def stripTrailingSeparator_def canonical_def butlast_append)
  then show ?thesis using res hd_tl_parts [OF split ne] by simp
qed

theorem rejoin_reconstructs_witness:
  "2 \<le> separators ''a.b.example.com'' \<and>
   (\<exists>p. getDomainAndSubdomain ''a.b.example.com'' = Inr p \<and> rejoin p = ''a.b.example.com'')"
proof -
  have two: "2 \<le> separators ''a.b.example.com''" by (simp add: separators_def)
  show ?thesis using two rejoin_reconstructs [OF two] by simp
qed

text \<open>
  C2 as stated fails for an input with one separator: the subdomain of
  \<open>example.com\<close> is empty and its parent domain is \<open>example.com\<close>, which rejoin to
  \<open>.example.com\<close>.
\<close>

theorem rejoin_apex_counterexample:
  "1 \<le> separators ''example.com'' \<and>
   getDomainAndSubdomain ''example.com'' =
     Inr \<lparr>subdomain = [], parentDomain = ''example.com''\<rparr> \<and>
   rejoin \<lparr>subdomain = [], parentDomain = ''example.com''\<rparr> = ''.example.com'' \<and>
   rejoin \<lparr>subdomain = [], parentDomain = ''example.com''\<rparr> \<noteq> ''example.com''"
  by (simp add: separators_def getDomainAndSubdomain_def rejoin_def
      stripTrailingSeparator_def canonical_def)

text \<open>
  C3. The splitter throws (the error with the message "No TLD found on" and the input)
  when the input has no separator, and returns a value when it has at least one.
  Being a function of its argument alone, it is deterministic and has no effect.
\<close>

theorem getDomainAndSubdomain_fails_iff:
  "(separators d = 0 \<longrightarrow>
      getDomainAndSubdomain d = Inl (Error (''No TLD found on '' @ d))) \<and>
   (1 \<le> separators d \<longrightarrow> (\<exists>p. getDomainAndSubdomain d = Inr p))"
proof (intro conjI impI)
  assume "separators d = 0"
  then show "getDomainAndSubdomain d = Inl (Error (''No TLD found on '' @ d))"
    by (rule getDomainAndSubdomain_none)
next
  assume "1 \<le> separators d"
  then have "separators d = 1 \<or> 2 \<le> separators d" by arith
  then show "\<exists>p. getDomainAndSubdomain d = Inr p"
  proof
    assume "separators d = 1"
    then show ?thesis by (simp add: getDomainAndSubdomain_two)
  next
    assume "2 \<le> separators d"
    then show ?thesis by (rule getDomainAndSubdomain_three) simp
  qed
qed

theorem getDomainAndSubdomain_fails_iff_witness:
  "separators ''localhost'' = 0 \<and>
   getDomainAndSubdomain ''localhost'' = Inl (Error ''No TLD found on localhost'') \<and>
   1 \<le> separators ''www.example.com'' \<and>
   (\<exists>p. getDomainAndSubdomain ''www.example.com'' = Inr p)"
proof -
  have none: "separators ''localhost'' = 0" by (simp add: separators_def)
  have some: "1 \<le> separators ''www.example.com''" by (simp add: separators_def)
  show ?thesis
    using none some getDomainAndSubdomain_fails_iff [of "''localhost''"]
      getDomainAndSubdomain_fails_iff [of "''www.example.com''"]
    by simp
qed

text \<open>
  C4, as amended. For an input with at least two separators the parent domain ends with
  the separator; for an input with exactly one separator the parent domain is the input
  as it is, with no separator added.
\<close>

theorem parentDomain_canonical:
  "(2 \<le> separators d \<longrightarrow>
      (\<exists>p. getDomainAndSubdomain d = Inr p \<and> canonical (parentDomain p))) \<and>
   (separators d = 1 \<longrightarrow>
      (\<exists>p. getDomainAndSubdomain d = Inr p \<and> parentDomain p = d))"
proof (intro conjI impI)
  assume "2 \<le> separators d"
  then show "\<exists>p. getDomainAndSubdomain d = Inr p \<and> canonical (parentDomain p)"
    by (rule getDomainAndSubdomain_three) (simp add: canonical_def)
next
  assume "separators d = 1"
  then show "\<exists>p. getDomainAndSubdomain d = Inr p \<and> parentDomain p = d"
    by (simp add: getDomainAndSubdomain_two)
qed

theorem parentDomain_canonical_witness:
  "2 \<le> separators ''www.example.com'' \<and>
   (\<exists>p. getDomainAndSubdomain ''www.example.com'' = Inr p \<and> canonical (parentDomain p)) \<and>
   separators ''example.com'' = 1 \<and>
   (\<exists>p. getDomainAndSubdomain ''example.com'' = Inr p \<and> parentDomain p = ''example.com'')"
proof -
  have two: "2 \<le> separators ''www.example.com''" by (simp add: separators_def)
  have one: "separators ''example.com'' = 1" by (simp add: separators_def)
  show ?thesis
    using two one parentDomain_canonical [of "''www.example.com''"]
      parentDomain_canonical [of "''example.com''"]
    by simp
qed

text \<open>
  C4 as stated fails for the valid input \<open>example.com\<close>: its parent domain is
  \<open>example.com\<close>, without the separator at the end.
\<close>

theorem parentDomain_apex_counterexample:
  "getDomainAndSubdomain ''example.com'' =
     Inr \<lparr>subdomain = [], parentDomain = ''example.com''\<rparr> \<and>
   \<not> canonical ''example.com''"
  by (simp add: getDomainAndSubdomain_def canonical_def)

section \<open>The effects of the methods\<close>

text \<open>
  Each method, and the constructor, in closed form: the result and the state of the
  engine after it, for an input the splitter accepts and for one it rejects.
\<close>

lemma created_append [simp]:
  "created st (st\<lparr>registered := registered st @ rs, zoneLookups := zs\<rparr>) = rs"
  "created st (st\<lparr>registered := registered st @ rs\<rparr>) = rs"
  by (simp_all add: created_def)

lemma provisionCertificate_Inl:
  assumes "getDomainAndSubdomain targetDomain = Inl e"
  shows "provisionCertificate this name targetDomain st =
     Inl (e, st\<lparr>registered := registered st @
       [Provider ''east'' \<lparr>profile = awsProfile st, region = ''us-east-1''\<rparr>
          \<lparr>provider = None, parent = None\<rparr>,
        Certificate (name @ ''-certificate'')
          \<lparr>cert_domainName = targetDomain, validationMethod = ''DNS''\<rparr>
          \<lparr>provider = Some (Handle KProvider ''east''), parent = Some this\<rparr>]\<rparr>)"
  using assms by (simp add: provisionCertificate_def new_def)

lemma provisionCertificate_Inr:
  assumes "getDomainAndSubdomain targetDomain = Inr p"
  shows "provisionCertificate this name targetDomain st =
     Inr (Out (Handle KCertificateValidation (name @ ''-certificateValidation''))
            ''certificateArn'',
          st\<lparr>registered := registered st @
       [Provider ''east'' \<lparr>profile = awsProfile st, region = ''us-east-1''\<rparr>
          \<lparr>provider = None, parent = None\<rparr>,
        Certificate (name @ ''-certificate'')
          \<lparr>cert_domainName = targetDomain, validationMethod = ''DNS''\<rparr>
          \<lparr>provider = Some (Handle KProvider ''east''), parent = Some this\<rparr>,
        Record (name @ ''-validation'')
          \<lparr>rec_name = Out (Handle KCertificate (name @ ''-certificate''))
                         ''domainValidationOptions[0].resourceRecordName'',
           rec_zoneId = ZoneIdOfLookup (length (zoneLookups st)),
           rec_type = Out (Handle KCertificate (name @ ''-certificate''))
                         ''domainValidationOptions[0].resourceRecordType'',
           rec_records = Some [Out (Handle KCertificate (name @ ''-certificate''))
                         ''domainValidationOptions[0].resourceRecordValue''],
           rec_ttl = Some TEN_MINUTES,
           rec_aliases = None\<rparr>
          \<lparr>provider = None, parent = Some this\<rparr>,
        CertificateValidation (name @ ''-certificateValidation'')
          \<lparr>cv_certificateArn = Out (Handle KCertificate (name @ ''-certificate'')) ''arn'',
           validationRecordFqdns = [Out (Handle KRecord (name @ ''-validation'')) ''fqdn'']\<rparr>
          \<lparr>provider = Some (Handle KProvider ''east''), parent = Some this\<rparr>],
        zoneLookups := zoneLookups st @ [parentDomain p]\<rparr>)"
  using assms by (simp add: provisionCertificate_def new_def getZoneId_def)

lemma createAliasRecord_Inl:
  assumes "getDomainAndSubdomain targetDomain = Inl e"
  shows "createAliasRecord this name targetDomain distribution st = Inl (e, st)"
  using assms by (simp add: createAliasRecord_def)

lemma createAliasRecord_empty:
  assumes "getDomainAndSubdomain targetDomain = Inr p"
  shows "createAliasRecord this [] targetDomain distribution st =
     Inl (ResourceError, st\<lparr>zoneLookups := zoneLookups st @ [parentDomain p]\<rparr>)"
  using assms by (simp add: createAliasRecord_def new_def getZoneId_def)

lemma createAliasRecord_Inr:
  assumes "getDomainAndSubdomain targetDomain = Inr p" and "name \<noteq> []"
  shows "createAliasRecord this name targetDomain distribution st =
     Inr (Handle KRecord name,
          st\<lparr>registered := registered st @
       [Record name
          \<lparr>rec_name = Str (subdomain p),
           rec_zoneId = ZoneIdOfLookup (length (zoneLookups st)),
           rec_type = Str ''A'',
           rec_records = None,
           rec_ttl = None,
           rec_aliases = Some [\<lparr>at_name = Out distribution ''domainName'',
                                 at_zoneId = Out distribution ''hostedZoneId'',
                                 evaluateTargetHealth = True\<rparr>]\<rparr>
          \<lparr>provider = None, parent = Some this\<rparr>],
        zoneLookups := zoneLookups st @ [parentDomain p]\<rparr>)"
  using assms by (simp add: createAliasRecord_def new_def getZoneId_def)

lemma constructor_Inr:
  fixes name targetDomain :: string and st :: engine
  defines "this \<equiv> Handle KComponent name"
    and "arn \<equiv> Out (Handle KCertificateValidation (name @ ''-certificateValidation''))
                  ''certificateArn''"
    and "k \<equiv> length (zoneLookups st)"
  assumes split: "getDomainAndSubdomain targetDomain = Inr p" and name: "name \<noteq> []"
  shows "StaticFrontendWithLambdaBackend name targetDomain contentBucket apiGateway logsBucket st =
     Inr (\<lparr>self = this,
           outputs = Some [(''certificateArn'', Value arn),
                           (''aliasRecord'', Undefined),
                           (''cloudFrontDistribution'',
                              Resource (Handle KDistribution (name @ ''-cloudfront'')))],
           this_certificateArn = Value arn,
           this_cloudFrontDistribution = Resource (Handle KDistribution (name @ ''-cloudfront'')),
           this_aliasRecord = Resource (Handle KRecord name)\<rparr>,
          st\<lparr>registered := registered st @
       ComponentResource ''StaticFrontendWithLambdaBackend'' name #
       (case logsBucket of
          None \<Rightarrow> [Bucket (name @ ''-front-logs'')
                     \<lparr>bucket = targetDomain @ ''-logs'', acl = ''private''\<rparr>
                     \<lparr>provider = None, parent = Some this\<rparr>]
        | Some b \<Rightarrow> []) @
       [Provider ''east'' \<lparr>profile = awsProfile st, region = ''us-east-1''\<rparr>
          \<lparr>provider = None, parent = None\<rparr>,
        Certificate (name @ ''-certificate'')
          \<lparr>cert_domainName = targetDomain, validationMethod = ''DNS''\<rparr>
          \<lparr>provider = Some (Handle KProvider ''east''), parent = Some this\<rparr>,
        Record (name @ ''-validation'')
          \<lparr>rec_name = Out (Handle KCertificate (name @ ''-certificate''))
                         ''domainValidationOptions[0].resourceRecordName'',
           rec_zoneId = ZoneIdOfLookup k,
           rec_type = Out (Handle KCertificate (name @ ''-certificate''))
                         ''domainValidationOptions[0].resourceRecordType'',
           rec_records = Some [Out (Handle KCertificate (name @ ''-certificate''))
                         ''domainValidationOptions[0].resourceRecordValue''],
           rec_ttl = Some TEN_MINUTES,
           rec_aliases = None\<rparr>
          \<lparr>provider = None, parent = Some this\<rparr>,
        CertificateValidation (name @ ''-certificateValidation'')
          \<lparr>cv_certificateArn = Out (Handle KCertificate (name @ ''-certificate'')) ''arn'',
           validationRecordFqdns = [Out (Handle KRecord (name @ ''-validation'')) ''fqdn'']\<rparr>
          \<lparr>provider = Some (Handle KProvider ''east''), parent = Some this\<rparr>,
        Distribution (name @ ''-cloudfront'')
          (distributionArgsOf targetDomain contentBucket apiGateway arn
             (case logsBucket of
                None \<Rightarrow> bucketObject (Handle KBucket (name @ ''-front-logs''))
              | Some b \<Rightarrow> b))
          \<lparr>provider = None, parent = Some this\<rparr>,
        Record name
          \<lparr>rec_name = Str (subdomain p),
           rec_zoneId = ZoneIdOfLookup (Suc k),
           rec_type = Str ''A'',
           rec_records = None,
           rec_ttl = None,
           rec_aliases = Some [\<lparr>at_name = Out (Handle KDistribution (name @ ''-cloudfront''))
                                            ''domainName'',
                                 at_zoneId = Out (Handle KDistribution (name @ ''-cloudfront''))
                                            ''hostedZoneId'',
                                 evaluateTargetHealth = True\<rparr>]\<rparr>
          \<lparr>provider = None, parent = Some this\<rparr>],
        zoneLookups := zoneLookups st @ [parentDomain p, parentDomain p]\<rparr>)"
  unfolding this_def arn_def k_def
  using name
  by (cases logsBucket)
    (simp_all add: StaticFrontendWithLambdaBackend_def provisionCertificate_Inr [OF split]
      createAliasRecord_Inr [OF split name] createCloudFrontDistribution_def
      createLogsBucket_def new_def)

lemma constructor_empty:
  "StaticFrontendWithLambdaBackend [] targetDomain contentBucket apiGateway logsBucket st =
     Inl (ResourceError, st)"
  by (simp add: StaticFrontendWithLambdaBackend_def new_def)

lemma constructor_Inl:
  assumes split: "getDomainAndSubdomain targetDomain = Inl e" and name: "name \<noteq> []"
  shows "StaticFrontendWithLambdaBackend name targetDomain contentBucket apiGateway logsBucket st =
     Inl (e, st\<lparr>registered := registered st @
       ComponentResource ''StaticFrontendWithLambdaBackend'' name #
       (case logsBucket of
          None \<Rightarrow> [Bucket (name @ ''-front-logs'')
                     \<lparr>bucket = targetDomain @ ''-logs'', acl = ''private''\<rparr>
                     \<lparr>provider = None, parent = Some (Handle KComponent name)\<rparr>]
        | Some b \<Rightarrow> []) @
       [Provider ''east'' \<lparr>profile = awsProfile st, region = ''us-east-1''\<rparr>
          \<lparr>provider = None, parent = None\<rparr>,
        Certificate (name @ ''-certificate'')
          \<lparr>cert_domainName = targetDomain, validationMethod = ''DNS''\<rparr>
          \<lparr>provider = Some (Handle KProvider ''east''),
           parent = Some (Handle KComponent name)\<rparr>]\<rparr>)"
  using name
  by (cases logsBucket)
    (simp_all add: StaticFrontendWithLambdaBackend_def provisionCertificate_Inl [OF split]
      createLogsBucket_def new_def)

lemma example_split:
  "getDomainAndSubdomain ''www.example.com'' =
     Inr \<lparr>subdomain = ''www'', parentDomain = ''example.com.''\<rparr>"
  by (simp add: getDomainAndSubdomain_def)

lemma example_name: "''site'' \<noteq> []"
  by simp

lemma constructor_cases:
  obtains (fails) e where "getDomainAndSubdomain targetDomain = Inl e"
  | (succeeds) p where "getDomainAndSubdomain targetDomain = Inr p"
  by (cases "getDomainAndSubdomain targetDomain") auto

lemma constructor_Inr_split:
  assumes "StaticFrontendWithLambdaBackend name targetDomain contentBucket apiGateway
             logsBucket st = Inr (obj, st')"
  obtains p where "getDomainAndSubdomain targetDomain = Inr p" and "name \<noteq> []"
proof -
  have name: "name \<noteq> []"
    using assms constructor_empty [of targetDomain contentBucket apiGateway logsBucket st]
    by auto
  then show ?thesis
    using assms that
      constructor_Inl [of targetDomain _ name contentBucket apiGateway logsBucket st]
    by (cases "getDomainAndSubdomain targetDomain") auto
qed

section \<open>The component\<close>

text \<open>
  C5, as amended. When the caller gives no logs bucket and the name of the component is
  not empty, the constructor registers one bucket: a private one whose bucket name is the
  target domain followed by "-logs"; its logical name is the component name followed by
  "-front-logs". This holds also for a run that the splitter ends with an exception
  afterwards. (With an empty name the constructor throws at once, \<open>constructor_empty\<close>.)
\<close>

theorem logs_bucket_default:
  assumes name: "name \<noteq> []"
  shows "filter isBucket
     (created st (finalEngine
        (StaticFrontendWithLambdaBackend name targetDomain contentBucket apiGateway None st)))
   = [Bucket (name @ ''-front-logs'')
        \<lparr>bucket = targetDomain @ ''-logs'', acl = ''private''\<rparr>
        \<lparr>provider = None, parent = Some (Handle KComponent name)\<rparr>]"
proof (cases rule: constructor_cases [of targetDomain])
  case (fails e)
  show ?thesis
    by (simp add: constructor_Inl [OF fails name] finalEngine_def)
next
  case (succeeds p)
  show ?thesis
    by (simp add: constructor_Inr [OF succeeds name] finalEngine_def)
qed

theorem logs_bucket_default_witness:
  "''site'' \<noteq> [] \<and>
   filter isBucket
     (created exampleEngine (finalEngine
        (StaticFrontendWithLambdaBackend ''site'' ''www.example.com'' exampleContentBucket
           exampleApiGateway None exampleEngine)))
   = [Bucket ''site-front-logs''
        \<lparr>bucket = ''www.example.com-logs'', acl = ''private''\<rparr>
        \<lparr>provider = None, parent = Some (Handle KComponent ''site'')\<rparr>]"
  using logs_bucket_default [OF example_name, of exampleEngine "''www.example.com''"
      exampleContentBucket exampleApiGateway]
  by simp

text \<open>
  C5 as stated fails: for the component \<open>site\<close> and the target domain
  \<open>www.example.com\<close> the bucket is named \<open>www.example.com-logs\<close>, not
  \<open>site-logs\<close>.
\<close>

theorem logs_bucket_name_counterexample:
  "filter isBucket
     (created exampleEngine (finalEngine
        (StaticFrontendWithLambdaBackend ''site'' ''www.example.com'' exampleContentBucket
           exampleApiGateway None exampleEngine)))
   = [Bucket ''site-front-logs''
        \<lparr>bucket = ''www.example.com-logs'', acl = ''private''\<rparr>
        \<lparr>provider = None, parent = Some (Handle KComponent ''site'')\<rparr>] \<and>
   ''www.example.com-logs'' \<noteq> ''site'' @ ''-logs''"
  by (simp add: constructor_Inr [OF example_split example_name] finalEngine_def)

text \<open>
  In every run that succeeds, the object given to \<open>registerOutputs\<close> has the three keys
  \<open>certificateArn\<close>, \<open>aliasRecord\<close> and \<open>cloudFrontDistribution\<close>, and the value of
  \<open>aliasRecord\<close> is undefined: the constructor reads \<open>this.aliasRecord\<close> before it
  assigns it.
\<close>

lemma registerOutputs_aliasRecord:
  assumes "StaticFrontendWithLambdaBackend name targetDomain contentBucket apiGateway
             logsBucket st = Inr (obj, st')"
  shows "outputs obj =
           Some [(''certificateArn'',
                    Value (Out (Handle KCertificateValidation
                                  (name @ ''-certificateValidation'')) ''certificateArn'')),
                 (''aliasRecord'', Undefined),
                 (''cloudFrontDistribution'',
                    Resource (Handle KDistribution (name @ ''-cloudfront'')))] \<and>
         this_aliasRecord obj = Resource (Handle KRecord name)"
proof -
  obtain p where split: "getDomainAndSubdomain targetDomain = Inr p" and name: "name \<noteq> []"
    using assms by (rule constructor_Inr_split)
  show ?thesis
    using assms unfolding constructor_Inr [OF split name] by auto
qed

text \<open>
  C6. The run for the component \<open>site\<close> and the target domain
  \<open>www.example.com\<close> succeeds; the registered output \<open>aliasRecord\<close> is undefined,
  while the property \<open>this.aliasRecord\<close> is the alias record the run created.
\<close>

theorem registerOutputs_aliasRecord_undefined:
  "registeredOutputs
     (StaticFrontendWithLambdaBackend ''site'' ''www.example.com'' exampleContentBucket
        exampleApiGateway None exampleEngine)
   = Some [(''certificateArn'',
              Value (Out (Handle KCertificateValidation ''site-certificateValidation'')
                       ''certificateArn'')),
           (''aliasRecord'', Undefined),
           (''cloudFrontDistribution'', Resource (Handle KDistribution ''site-cloudfront''))] \<and>
   map_sum fst (this_aliasRecord \<circ> fst)
     (StaticFrontendWithLambdaBackend ''site'' ''www.example.com'' exampleContentBucket
        exampleApiGateway None exampleEngine)
   = Inr (Resource (Handle KRecord ''site''))"
  by (simp add: constructor_Inr [OF example_split example_name] registeredOutputs_def)

text \<open>
  C7, as amended. A run that succeeds makes two lookups in the zone registry, one for the
  validation record and one for the alias record, both with the parent domain of the
  target domain as the name; nothing is memoized. Each record gets the promise of its own
  lookup, and both promises resolve to what the registry answers for that name.
\<close>

theorem zone_lookups:
  assumes "StaticFrontendWithLambdaBackend name targetDomain contentBucket apiGateway
             logsBucket st = Inr (obj, st')"
  shows "\<exists>p. getDomainAndSubdomain targetDomain = Inr p \<and>
           zoneLookups st' = zoneLookups st @ [parentDomain p, parentDomain p] \<and>
           concat (map zoneIdOf (created st st')) =
             [(Handle KRecord (name @ ''-validation''),
                 ZoneIdOfLookup (length (zoneLookups st))),
              (Handle KRecord name, ZoneIdOfLookup (Suc (length (zoneLookups st))))] \<and>
           observedZoneId registry st' (ZoneIdOfLookup (length (zoneLookups st)))
             = registry (parentDomain p) \<and>
           observedZoneId registry st' (ZoneIdOfLookup (Suc (length (zoneLookups st))))
             = registry (parentDomain p)"
proof -
  obtain p where split: "getDomainAndSubdomain targetDomain = Inr p" and name: "name \<noteq> []"
    using assms by (rule constructor_Inr_split)
  have "zoneLookups st' = zoneLookups st @ [parentDomain p, parentDomain p]"
    using assms unfolding constructor_Inr [OF split name] by auto
  moreover have "concat (map zoneIdOf (created st st')) =
             [(Handle KRecord (name @ ''-validation''),
                 ZoneIdOfLookup (length (zoneLookups st))),
              (Handle KRecord name, ZoneIdOfLookup (Suc (length (zoneLookups st))))]"
    using assms unfolding constructor_Inr [OF split name] by (cases logsBucket) auto
  ultimately show ?thesis
    using split by (simp add: observedZoneId_def nth_append)
qed

theorem zone_lookups_witness:
  "\<not> isl (StaticFrontendWithLambdaBackend ''site'' ''www.example.com'' exampleContentBucket
           exampleApiGateway None exampleEngine) \<and>
   (\<exists>p. getDomainAndSubdomain ''www.example.com'' = Inr p \<and>
      zoneLookups (finalEngine
        (StaticFrontendWithLambdaBackend ''site'' ''www.example.com'' exampleContentBucket
           exampleApiGateway None exampleEngine))
        = zoneLookups exampleEngine @ [parentDomain p, parentDomain p])"
proof -
  obtain obj st' where run:
    "StaticFrontendWithLambdaBackend ''site'' ''www.example.com'' exampleContentBucket
       exampleApiGateway None exampleEngine = Inr (obj, st')"
    by (simp add: constructor_Inr [OF example_split example_name])
  show ?thesis
    using zone_lookups [OF run] by (auto simp: run finalEngine_def)
qed

text \<open>
  C7 as stated fails: the run for \<open>www.example.com\<close> makes two lookups of
  \<open>example.com.\<close>, not at most one.
\<close>

theorem zone_lookups_counterexample:
  "\<not> isl (StaticFrontendWithLambdaBackend ''site'' ''www.example.com'' exampleContentBucket
           exampleApiGateway None exampleEngine) \<and>
   zoneLookups (finalEngine
     (StaticFrontendWithLambdaBackend ''site'' ''www.example.com'' exampleContentBucket
        exampleApiGateway None exampleEngine)) = [''example.com.'', ''example.com.''] \<and>
   \<not> length (zoneLookups (finalEngine
     (StaticFrontendWithLambdaBackend ''site'' ''www.example.com'' exampleContentBucket
        exampleApiGateway None exampleEngine))) \<le> 1"
  by (simp add: constructor_Inr [OF example_split example_name] finalEngine_def exampleEngine_def)

lemma precedes_trans:
  assumes "precedes a b order" and "precedes b c order"
  shows "precedes a c order"
proof -
  from assms(1) have "b \<in> set order" and a: "a \<in> set (takeWhile (\<lambda>h. h \<noteq> b) order)"
    by (simp_all add: precedes_def)
  from assms(2) have c: "c \<in> set order" and b: "b \<in> set (takeWhile (\<lambda>h. h \<noteq> c) order)"
    by (simp_all add: precedes_def)
  have "set (takeWhile (\<lambda>h. h \<noteq> b) order) \<subseteq> set (takeWhile (\<lambda>h. h \<noteq> c) order)"
    using b
  proof (induction order)
    case Nil
    then show ?case by simp
  next
    case (Cons x xs)
    then show ?case by (auto split: if_splits)
  qed
  with a c show ?thesis by (auto simp: precedes_def)
qed

text \<open>
  C8. In a run that succeeds, the certificate validation has the \<open>fqdn\<close> output of the
  validation record among its inputs, and the certificate ARN the constructor hands to the
  distribution (and keeps as \<open>this.certificateArn\<close>) is the \<open>certificateArn\<close> output of
  the certificate validation, not of the certificate. So in every order of creation that
  respects the dependencies, the validation record is created before the certificate
  validation, and the certificate validation before the distribution: the distribution,
  which is given the ARN, is created after the validation record.
\<close>

theorem validation_precedes:
  assumes run: "StaticFrontendWithLambdaBackend name targetDomain contentBucket apiGateway
             logsBucket st = Inr (obj, st')"
    and order: "respectsDependencies (created st st') order"
  shows "precedes (Handle KRecord (name @ ''-validation''))
           (Handle KCertificateValidation (name @ ''-certificateValidation'')) order \<and>
         precedes (Handle KCertificateValidation (name @ ''-certificateValidation''))
           (Handle KDistribution (name @ ''-cloudfront'')) order \<and>
         precedes (Handle KRecord (name @ ''-validation''))
           (Handle KDistribution (name @ ''-cloudfront'')) order \<and>
         concat (map viewerCertificateArnOf (created st st')) =
           [Out (Handle KCertificateValidation (name @ ''-certificateValidation''))
              ''certificateArn''] \<and>
         this_certificateArn obj =
           Value (Out (Handle KCertificateValidation (name @ ''-certificateValidation''))
                    ''certificateArn'')"
proof -
  obtain p where split: "getDomainAndSubdomain targetDomain = Inr p" and name: "name \<noteq> []"
    using run by (rule constructor_Inr_split)
  let ?validation = "CertificateValidation (name @ ''-certificateValidation'')
          \<lparr>cv_certificateArn = Out (Handle KCertificate (name @ ''-certificate'')) ''arn'',
           validationRecordFqdns = [Out (Handle KRecord (name @ ''-validation'')) ''fqdn'']\<rparr>
          \<lparr>provider = Some (Handle KProvider ''east''),
           parent = Some (Handle KComponent name)\<rparr>"
  let ?distribution = "Distribution (name @ ''-cloudfront'')
          (distributionArgsOf targetDomain contentBucket apiGateway
             (Out (Handle KCertificateValidation (name @ ''-certificateValidation''))
                ''certificateArn'')
             (case logsBucket of
                None \<Rightarrow> bucketObject (Handle KBucket (name @ ''-front-logs''))
              | Some b \<Rightarrow> b))
          \<lparr>provider = None, parent = Some (Handle KComponent name)\<rparr>"
  have members: "?validation \<in> set (created st st')" "?distribution \<in> set (created st st')"
    using run unfolding constructor_Inr [OF split name] by auto
  have "Handle KRecord (name @ ''-validation'') \<in> set (dependencies ?validation)"
    by (simp add: dependencies_def)
  then have first: "precedes (Handle KRecord (name @ ''-validation''))
      (Handle KCertificateValidation (name @ ''-certificateValidation'')) order"
    using order members(1) unfolding respectsDependencies_def by fastforce
  have "Handle KCertificateValidation (name @ ''-certificateValidation'')
          \<in> set (dependencies ?distribution)"
    by (simp add: dependencies_def distributionArgsOf_def)
  then have second: "precedes (Handle KCertificateValidation (name @ ''-certificateValidation''))
      (Handle KDistribution (name @ ''-cloudfront'')) order"
    using order members(2) unfolding respectsDependencies_def by fastforce
  have handed: "concat (map viewerCertificateArnOf (created st st')) =
           [Out (Handle KCertificateValidation (name @ ''-certificateValidation''))
              ''certificateArn'']"
    using run unfolding constructor_Inr [OF split name]
    by (cases logsBucket) (auto simp: distributionArgsOf_def)
  have kept: "this_certificateArn obj =
           Value (Out (Handle KCertificateValidation (name @ ''-certificateValidation''))
                    ''certificateArn'')"
    using run unfolding constructor_Inr [OF split name] by auto
  show ?thesis
    using first second precedes_trans [OF first second] handed kept by simp
qed

theorem validation_precedes_witness:
  "\<not> isl (StaticFrontendWithLambdaBackend ''site'' ''www.example.com'' exampleContentBucket
           exampleApiGateway None exampleEngine) \<and>
   respectsDependencies
     (created exampleEngine (finalEngine
        (StaticFrontendWithLambdaBackend ''site'' ''www.example.com'' exampleContentBucket
           exampleApiGateway None exampleEngine))) exampleOrder \<and>
   precedes (Handle KRecord ''site-validation'')
     (Handle KCertificateValidation ''site-certificateValidation'') exampleOrder \<and>
   precedes (Handle KCertificateValidation ''site-certificateValidation'')
     (Handle KDistribution ''site-cloudfront'') exampleOrder \<and>
   precedes (Handle KRecord ''site-validation'')
     (Handle KDistribution ''site-cloudfront'') exampleOrder"
proof -
  obtain obj st' where run:
    "StaticFrontendWithLambdaBackend ''site'' ''www.example.com'' exampleContentBucket
       exampleApiGateway None exampleEngine = Inr (obj, st')"
    by (simp add: constructor_Inr [OF example_split example_name])
  have evaluated: "respectsDependencies
     (created exampleEngine (finalEngine
        (StaticFrontendWithLambdaBackend ''site'' ''www.example.com'' exampleContentBucket
           exampleApiGateway None exampleEngine))) exampleOrder"
    by code_simp
  then have order: "respectsDependencies (created exampleEngine st') exampleOrder"
    by (simp add: run finalEngine_def)
  show ?thesis
    using validation_precedes [OF run order] evaluated by (simp add: run)
qed

text \<open>
  C9. The distribution that \<open>createCloudFrontDistribution\<close> registers has exactly two
  custom error responses: 404 is answered with status 404 and the page \<open>/404.html\<close>,
  403 with status 200 and the page \<open>/index.html\<close>.
\<close>

theorem custom_error_responses:
  "\<not> isl (createCloudFrontDistribution this name targetDomain contentBucket
          apiGateway certificateArn logsBucket st) \<and>
   map errorResponsesOf
     (created st (finalEngine (createCloudFrontDistribution this name targetDomain
        contentBucket apiGateway certificateArn logsBucket st)))
   = [[\<lparr>errorCode = 404, responseCode = 404, responsePagePath = ''/404.html''\<rparr>,
       \<lparr>errorCode = 403, responseCode = 200, responsePagePath = ''/index.html''\<rparr>]]"
  by (simp add: createCloudFrontDistribution_def distributionArgsOf_def new_def
      finalEngine_def)

theorem custom_error_responses_witness:
  "\<not> isl (createCloudFrontDistribution (Handle KComponent ''site'')
        ''site'' ''www.example.com'' exampleContentBucket exampleApiGateway
        (Str ''arn:aws:acm:us-east-1:123456789012:certificate/abc'')
        (bucketObject (Handle KBucket ''site-front-logs'')) exampleEngine) \<and>
   map errorResponsesOf
     (created exampleEngine (finalEngine (createCloudFrontDistribution
        (Handle KComponent ''site'')
        ''site'' ''www.example.com'' exampleContentBucket exampleApiGateway
        (Str ''arn:aws:acm:us-east-1:123456789012:certificate/abc'')
        (bucketObject (Handle KBucket ''site-front-logs'')) exampleEngine)))
   = [[\<lparr>errorCode = 404, responseCode = 404, responsePagePath = ''/404.html''\<rparr>,
       \<lparr>errorCode = 403, responseCode = 200, responsePagePath = ''/index.html''\<rparr>]]"
  by (rule custom_error_responses)

text \<open>
  C10. For a target domain with exactly one separator (and a logical name that the
  library accepts, a non-empty one), \<open>createAliasRecord\<close> does not fail. It looks the zone
  up once, under the target domain itself, and registers exactly one record: its name is
  the empty string, its zone is the one that lookup resolves to, its type is \<open>A\<close>, and
  it is an alias of the distribution, with the component as its parent.
\<close>

theorem alias_record_apex:
  assumes "separators targetDomain = 1" and "name \<noteq> []"
  shows "\<exists>st'.
       createAliasRecord this name targetDomain distribution st
         = Inr (Handle KRecord name, st') \<and>
       created st st' =
         [Record name
            \<lparr>rec_name = Str [],
             rec_zoneId = ZoneIdOfLookup (length (zoneLookups st)),
             rec_type = Str ''A'',
             rec_records = None,
             rec_ttl = None,
             rec_aliases = Some [\<lparr>at_name = Out distribution ''domainName'',
                                   at_zoneId = Out distribution ''hostedZoneId'',
                                   evaluateTargetHealth = True\<rparr>]\<rparr>
            \<lparr>provider = None, parent = Some this\<rparr>] \<and>
       zoneLookups st' = zoneLookups st @ [targetDomain] \<and>
       observedZoneId registry st' (ZoneIdOfLookup (length (zoneLookups st)))
         = registry targetDomain"
  using assms(2)
  by (simp add: createAliasRecord_Inr [OF getDomainAndSubdomain_two [OF assms(1)]]
      observedZoneId_def)

theorem alias_record_apex_witness:
  "separators ''example.com'' = 1 \<and> ''site'' \<noteq> [] \<and>
   (\<exists>st'.
       createAliasRecord (Handle KComponent ''site'') ''site'' ''example.com''
           (Handle KDistribution ''site-cloudfront'') exampleEngine
         = Inr (Handle KRecord ''site'', st') \<and>
       created exampleEngine st' =
         [Record ''site''
            \<lparr>rec_name = Str [],
             rec_zoneId = ZoneIdOfLookup 0,
             rec_type = Str ''A'',
             rec_records = None,
             rec_ttl = None,
             rec_aliases =
               Some [\<lparr>at_name = Out (Handle KDistribution ''site-cloudfront'') ''domainName'',
                      at_zoneId = Out (Handle KDistribution ''site-cloudfront'')
                                    ''hostedZoneId'',
                      evaluateTargetHealth = True\<rparr>]\<rparr>
            \<lparr>provider = None, parent = Some (Handle KComponent ''site'')\<rparr>] \<and>
       zoneLookups st' = [''example.com''])"
proof -
  have one: "separators ''example.com'' = 1" by (simp add: separators_def)
  show ?thesis
    using one alias_record_apex [OF one example_name, of "Handle KComponent ''site''"
        "Handle KDistribution ''site-cloudfront''" exampleEngine]
    by (auto simp: exampleEngine_def)
qed

text \<open>
  With an empty logical name the record is refused by the library: the lookup has been
  made, and nothing is registered.
\<close>

lemma alias_record_empty_name:
  assumes "separators targetDomain = 1"
  shows "createAliasRecord this [] targetDomain distribution st =
     Inl (ResourceError, st\<lparr>zoneLookups := zoneLookups st @ [targetDomain]\<rparr>)"
  by (simp add: createAliasRecord_empty [OF getDomainAndSubdomain_two [OF assms]])

end
